theory Spec2Isabelle
  imports Complex_Main "HOL-Library.Sublist"
begin

section \<open>JavaScript values, errors and promises\<close>

text \<open>
  A thrown value or the value a promise rejects with. \<open>TypeError\<close> is what reading a
  property of \<open>undefined\<close> raises; \<open>Failure\<close> carries the value of every other throw or
  rejection (a library error, a failed remote call, the \<open>error\<close> query parameter).
\<close>

datatype js_error = TypeError | Failure string

text \<open>
  The result of awaiting an asynchronous function: it returned, it threw, or it is still
  waiting for an event (a request, a key press, a remote answer) that has not come.
\<close>

datatype 'a outcome = Returned 'a | Threw js_error | Pending

text \<open>
  An asynchronous function is modelled with the list of what it did to the outside world
  and its outcome; \<open>after evs r\<close> is \<open>r\<close> run after the events \<open>evs\<close> have happened.
\<close>

definition after :: "'e list \<Rightarrow> 'e list \<times> 'a outcome \<Rightarrow> 'e list \<times> 'a outcome" where
  "after evs r = (evs @ fst r, snd r)"

text \<open>
  The numbers the program computes with: \<open>Math.round(bytesRead / fileSize * 100)\<close> and the
  delays of \<open>setTimeout\<close>. They are IEEE 754 doubles: \<open>NaN\<close>, the two infinities, or a
  finite value, held as the rational it stands for (the two zeros are not told apart).
\<close>

datatype jsnum = NaN | Infinity | NegInfinity | Num rat

datatype jsval = JNumber jsnum | JString string

text \<open>Truthiness, as \<open>if (x)\<close> and \<open>x || y\<close> test it; \<open>None\<close> is \<open>null\<close> or \<open>undefined\<close>.\<close>

fun truthy :: "jsval option \<Rightarrow> bool" where
  "truthy None = False"
| "truthy (Some (JString s)) = (s \<noteq> [])"
| "truthy (Some (JNumber NaN)) = False"
| "truthy (Some (JNumber Infinity)) = True"
| "truthy (Some (JNumber NegInfinity)) = True"
| "truthy (Some (JNumber (Num q))) = (q \<noteq> 0)"

fun truthy_str :: "string option \<Rightarrow> bool" where
  "truthy_str None = False"
| "truthy_str (Some s) = (s \<noteq> [])"

section \<open>The Secret Store (keytar)\<close>

type_synonym secret_store = "(string \<times> string) \<rightharpoonup> string"

definition getPassword :: "secret_store \<Rightarrow> string \<Rightarrow> string \<Rightarrow> string option" where
  "getPassword store service account = store (service, account)"

text \<open>
  \<open>keytar.setPassword\<close> throws the error "Password is required." for a password that is
  missing or empty.
\<close>

definition setPassword ::
  "secret_store \<Rightarrow> string \<Rightarrow> string \<Rightarrow> string option \<Rightarrow> js_error + secret_store" where
  "setPassword store service account password =
     (case password of
        None \<Rightarrow> Inl (Failure ''Password is required.'')
      | Some p \<Rightarrow>
          if p = [] then Inl (Failure ''Password is required.'')
          else Inr (store((service, account) \<mapsto> p)))"

section \<open>The Consent Flow\<close>

subsection \<open>The local callback listener (\<open>getAuthToken\<close>)\<close>

text \<open>\<open>s.indexOf(p)\<close>: the first position at which \<open>p\<close> occurs in \<open>s\<close>, or \<open>-1\<close>.\<close>

fun indexOf_from :: "string \<Rightarrow> string \<Rightarrow> int \<Rightarrow> int" where
  "indexOf_from [] p i = (if p = [] then i else - 1)"
| "indexOf_from (c # cs) p i =
     (if prefix p (c # cs) then i else indexOf_from cs p (i + 1))"

definition indexOf :: "string \<Rightarrow> string \<Rightarrow> int" where
  "indexOf s p = indexOf_from s p 0"

text \<open>
  An incoming request: its \<open>url\<close>, and what \<open>new URL(req.url, ...)\<close> makes of it, either a
  throw or the decoded pairs of the query string, in order. \<open>searchParams.get\<close> returns the
  first value of a name, or \<open>null\<close>.
\<close>

record request =
  url :: string
  searchParams :: "js_error + (string \<times> string) list"

definition searchParams_get :: "(string \<times> string) list \<Rightarrow> string \<Rightarrow> string option" where
  "searchParams_get ps name = map_of ps name"

datatype 'a promise = Unsettled | Resolved 'a | Rejected js_error

text \<open>
  The promise of \<open>getAuthToken\<close> with its server: whether the server still listens on port
  3000, the bodies sent with \<open>res.end\<close>, and an error event that nothing handles, which
  ends the process.
\<close>

record listener =
  promise :: "string promise"
  listening :: bool
  replies :: "string list"
  uncaught :: "js_error option"

definition resolve :: "string \<Rightarrow> listener \<Rightarrow> listener" where
  "resolve v st = (if promise st = Unsettled then st\<lparr>promise := Resolved v\<rparr> else st)"

definition reject :: "js_error \<Rightarrow> listener \<Rightarrow> listener" where
  "reject e st = (if promise st = Unsettled then st\<lparr>promise := Rejected e\<rparr> else st)"

definition server_close :: "listener \<Rightarrow> listener" where
  "server_close st = st\<lparr>listening := False\<rparr>"

text \<open>
  \<open>res.end(body)\<close> on the response of one request; the flag says whether that response
  has been ended before. The first call sends the body. A further call with a body makes
  Node emit the error \<open>ERR_STREAM_WRITE_AFTER_END\<close> on the response at the next tick: the
  call itself returns, the rest of the handler runs, and then the unhandled error event
  ends the process, before any continuation of a promise.
\<close>

definition res_end :: "string \<Rightarrow> bool \<times> listener \<Rightarrow> bool \<times> listener" where
  "res_end body r =
     (if fst r then
        (True, (snd r)\<lparr>uncaught :=
                 (case uncaught (snd r) of
                    None \<Rightarrow> Some (Failure ''ERR_STREAM_WRITE_AFTER_END'')
                  | Some e \<Rightarrow> Some e)\<rparr>)
      else (True, (snd r)\<lparr>replies := replies (snd r) @ [body]\<rparr>))"

text \<open>
  The request handler passed to \<open>http.createServer\<close>, with the response of the request
  not yet ended. The two tests \<open>if (code)\<close> and \<open>if (error)\<close> follow one another, with no
  \<open>else\<close>.
\<close>

definition handler :: "request \<Rightarrow> listener \<Rightarrow> listener" where
  "handler req st =
     (if indexOf (url req) ''/oauth2callback'' > - 1 then
        (case searchParams req of
           Inl e \<Rightarrow> reject e st
         | Inr myURL \<Rightarrow>
             (let error = searchParams_get myURL ''error'';
                  code = searchParams_get myURL ''code'';
                  res = (False, st);
                  res1 = (case code of
                            Some c \<Rightarrow>
                              if truthy_str code then
                                apsnd (resolve c) (apsnd server_close
                                  (res_end ''Authentication successful! Please return to the console.'' res))
                              else res
                          | None \<Rightarrow> res)
              in snd (case error of
                        Some e \<Rightarrow>
                          if truthy_str error then
                            apsnd (reject (Failure e)) (apsnd server_close
                              (res_end ''Authentication canceled. Please return to the console.'' res1))
                          else res1
                      | None \<Rightarrow> res1)))
      else st)"

text \<open>The server handles the requests that arrive while it listens and the process lives.\<close>

fun serve :: "request list \<Rightarrow> listener \<Rightarrow> listener" where
  "serve [] st = st"
| "serve (req # reqs) st =
     (if listening st \<and> uncaught st = None then serve reqs (handler req st) else st)"

definition createServer :: listener where
  "createServer = \<lparr>promise = Unsettled, listening = True, replies = [], uncaught = None\<rparr>"

definition getAuthToken :: "request list \<Rightarrow> listener" where
  "getAuthToken reqs = serve reqs createServer"

subsection \<open>\<open>doOAuth\<close>\<close>

record tokens =
  access_token :: "string option"
  refresh_token :: "string option"

text \<open>The two scopes \<open>generateAuthUrl\<close> asks for.\<close>

definition scope :: "string list" where
  "scope = [''https://www.googleapis.com/auth/youtube.upload'',
            ''https://www.googleapis.com/auth/youtube.force-ssl'']"

text \<open>\<open>s.split(" ")\<close>: the pieces of \<open>s\<close> between single spaces; never an empty list.\<close>

fun split_sp :: "string \<Rightarrow> string list" where
  "split_sp [] = [[]]"
| "split_sp (c # cs) =
     (if c = CHR '' '' then [] # split_sp cs
      else (case split_sp cs of
              w # ws \<Rightarrow> (c # w) # ws
            | [] \<Rightarrow> [[c]]))"

text \<open>
  What the outside world does during one pass through \<open>doOAuth\<close>: the requests that reach
  the listener, the answer of the token endpoint to \<open>getToken(authToken)\<close>, and the
  tokeninfo lookup for the access token, which either throws (\<open>fetch\<close> or \<open>response.json\<close>
  fail) or yields \<open>data.scope\<close>, \<open>None\<close> when the answer has no scope string.
\<close>

record consent_round =
  requests :: "request list"
  getToken :: "string \<Rightarrow> js_error + tokens"
  tokeninfo :: "string option \<Rightarrow> js_error + string option"

text \<open>
  \<open>redoConsent\<close> prints its message, waits for Enter and calls \<open>doOAuth\<close> again; the
  number counts these calls.
\<close>

definition redoConsent :: "tokens outcome \<times> nat \<Rightarrow> tokens outcome \<times> nat" where
  "redoConsent r = (fst r, Suc (snd r))"

text \<open>
  \<open>doOAuth\<close> over the passes the outside world provides; with none left the flow is
  waiting for the user. \<open>busy\<close> says that an earlier listener never closed: then
  \<open>listen(3000)\<close> fails, and nothing handles the server's error event. An unhandled
  error event ends the process before \<open>await getAuthToken\<close> continues; like a throw of
  \<open>doOAuth\<close>, which no caller catches, it is the outcome \<open>Threw\<close>.
\<close>

fun doOAuth :: "bool \<Rightarrow> consent_round list \<Rightarrow> tokens outcome \<times> nat" where
  "doOAuth busy [] = (if busy then (Threw (Failure ''EADDRINUSE''), 0) else (Pending, 0))"
| "doOAuth busy (r # rs) =
     (if busy then (Threw (Failure ''EADDRINUSE''), 0)
      else
        (let server = getAuthToken (requests r) in
         case uncaught server of
           Some e \<Rightarrow> (Threw e, 0)
         | None \<Rightarrow>
             (case promise server of
                Unsettled \<Rightarrow> (Pending, 0)
              | Rejected error \<Rightarrow> redoConsent (doOAuth (listening server) rs)
              | Resolved authToken \<Rightarrow>
                  (case getToken r authToken of
                     Inl e \<Rightarrow> (Threw e, 0)
                   | Inr tokens \<Rightarrow>
                       (case tokeninfo r (access_token tokens) of
                          Inl error \<Rightarrow> (Returned tokens, 0)
                        | Inr None \<Rightarrow> (Returned tokens, 0)
                        | Inr (Some data_scope) \<Rightarrow>
                            if length (split_sp data_scope) < 2
                            then redoConsent (doOAuth (listening server) rs)
                            else (Returned tokens, 0))))))"

subsection \<open>The class \<open>YoutubeAPI\<close>: \<open>#authorize\<close>, \<open>#isValid\<close> and \<open>init\<close>\<close>

text \<open>The client \<open>google.youtube({version, auth})\<close> builds, with its version.\<close>

datatype youtube = Youtube string

text \<open>
  An instance: the credentials set on \<open>#oauth2Client\<close>, the public \<open>refreshToken\<close>, the
  private field \<open>#youTubeAPI\<close> and the public property \<open>youtubeApi\<close>. The client id,
  secret and redirect URL of the constructor play no part in what follows and are left out.
\<close>

record YoutubeAPI =
  oauth2Client :: tokens
  refreshToken :: "string option"
  youTubeAPI :: "youtube option"
  youtubeApi :: "youtube option"

definition new_YoutubeAPI :: "string option \<Rightarrow> YoutubeAPI" where
  "new_YoutubeAPI token =
     \<lparr>oauth2Client = \<lparr>access_token = None, refresh_token = None\<rparr>,
      refreshToken = token, youTubeAPI = None, youtubeApi = None\<rparr>"

datatype call = RefreshAccessToken | Authorize

text \<open>
  \<open>#authorize\<close>: the explanation and the first prompt, then \<open>doOAuth\<close>; its tokens become
  the credentials and the refresh token, and the client is stored in \<open>this.youtubeApi\<close>.
  The call itself is recorded.
\<close>

definition authorize :: "YoutubeAPI \<Rightarrow> consent_round list \<Rightarrow> call list \<times> YoutubeAPI outcome" where
  "authorize this rounds =
     ([Authorize],
      case fst (doOAuth False rounds) of
        Returned tokens \<Rightarrow>
          Returned (this\<lparr>oauth2Client := tokens,
                         refreshToken := refresh_token tokens,
                         youtubeApi := Some (Youtube ''v3'')\<rparr>)
      | Threw e \<Rightarrow> Threw e
      | Pending \<Rightarrow> Pending)"

text \<open>
  \<open>#isValid\<close> calls \<open>refreshAccessToken\<close> and resolves to whether its callback got no
  error; the argument is what the remote service makes the callback receive.
\<close>

definition isValid :: "js_error option \<Rightarrow> call list \<times> bool" where
  "isValid error =
     ([RefreshAccessToken], case error of Some e \<Rightarrow> False | None \<Rightarrow> True)"

text \<open>
  What the outside world does during \<open>init\<close>: the answer to the silent refresh (an error,
  or none) and the passes of the consent flow.
\<close>

record init_env =
  refreshAccessToken :: "js_error option"
  rounds :: "consent_round list"

text \<open>\<open>init\<close>, with the calls it makes, in order.\<close>

definition init :: "YoutubeAPI \<Rightarrow> init_env \<Rightarrow> call list \<times> YoutubeAPI outcome" where
  "init this env =
     (if truthy_str (refreshToken this) then
        (let this1 = this\<lparr>oauth2Client :=
                           \<lparr>access_token = None, refresh_token = refreshToken this\<rparr>\<rparr>;
             valid = isValid (refreshAccessToken env)
         in if snd valid then
              (fst valid, Returned (this1\<lparr>youTubeAPI := Some (Youtube ''v3'')\<rparr>))
            else after (fst valid) (authorize this1 (rounds env)))
      else authorize this (rounds env))"

subsection \<open>Process start (\<open>youtube-remote-upload.js\<close>, lines 15 to 24)\<close>

definition startup :: "secret_store \<Rightarrow> init_env \<Rightarrow> (secret_store \<times> YoutubeAPI) outcome" where
  "startup store env =
     (let token = getPassword store ''YouTubeRemoteUpload'' ''refreshToken'';
          youtubeAPI = new_YoutubeAPI token
      in case snd (init youtubeAPI env) of
           Returned api \<Rightarrow>
             (case setPassword store ''youTubeRemoteUpload'' ''refreshToken'' (refreshToken api) of
                Inl e \<Rightarrow> Threw e
              | Inr store' \<Rightarrow> Returned (store', api))
         | Threw e \<Rightarrow> Threw e
         | Pending \<Rightarrow> Pending)"

section \<open>\<open>uploadVideo\<close>\<close>

subsection \<open>\<open>createDetailsObject\<close>\<close>

text \<open>
  The sections of a metadata document; a section is an object, a map from keys to
  values of any kind, and may be missing. Spreading a missing section adds nothing.
\<close>

record 'v videoDetails =
  snippet :: "(string \<rightharpoonup> 'v) option"
  status :: "(string \<rightharpoonup> 'v) option"

definition spread :: "(string \<rightharpoonup> 'v) option \<Rightarrow> (string \<rightharpoonup> 'v)" where
  "spread obj = (case obj of None \<Rightarrow> Map.empty | Some m \<Rightarrow> m)"

text \<open>
  The first argument is \<open>JSON.parse(fs.readFileSync('uploadDefaults.json'))\<close>: a throw
  (no file, no JSON, not an object) or the document.
\<close>

definition createDetailsObject ::
  "js_error + 'v videoDetails \<Rightarrow> 'v videoDetails \<Rightarrow> js_error + 'v videoDetails" where
  "createDetailsObject uploadDefaults userDefined =
     (case uploadDefaults of
        Inl e \<Rightarrow> Inl e
      | Inr defaults \<Rightarrow>
          Inr \<lparr>snippet = Some (spread (snippet defaults) ++ spread (snippet userDefined)),
               status = Some (spread (status defaults) ++ spread (status userDefined))\<rparr>)"

subsection \<open>Upload progress\<close>

text \<open>
  Rounding a rational to the nearest double, ties to the even significand: the binary
  exponent of the value (not below that of the subnormal numbers), the unit in the last
  of the 53 bits of the significand, and the nearest multiple of that unit; a result of
  \<open>2^1024\<close> or more is an infinity.
\<close>

fun bit_length :: "nat \<Rightarrow> nat" where
  "bit_length n = (if n = 0 then 0 else Suc (bit_length (n div 2)))"

text \<open>For \<open>0 < q\<close>, the \<open>e\<close> with \<open>2^e \<le> q < 2^(e+1)\<close>.\<close>

definition exponent :: "rat \<Rightarrow> int" where
  "exponent q =
     (if 1 \<le> q then int (bit_length (nat \<lfloor>q\<rfloor>)) - 1
      else - int (bit_length (nat (\<lceil>1 / q\<rceil> - 1))))"

definition round_half_even :: "rat \<Rightarrow> int" where
  "round_half_even x =
     (let f = \<lfloor>x\<rfloor>; r = x - of_int f
      in if r < 1 / 2 then f else if 1 / 2 < r then f + 1 else if even f then f else f + 1)"

definition double :: "rat \<Rightarrow> jsnum" where
  "double q =
     (if q = 0 then Num 0
      else
        (let e = max (exponent \<bar>q\<bar>) (- 1022);
             ulp = 2 powi (e - 52);
             r = of_int (round_half_even (\<bar>q\<bar> / ulp)) * ulp
         in if 2 powi 1024 \<le> r then (if 0 < q then Infinity else NegInfinity)
            else Num (sgn q * r)))"

text \<open>
  \<open>a / b\<close> for a byte count and a file size: integers that doubles hold as they are
  (below \<open>2^53\<close> for any file there is), so only the quotient is rounded.
\<close>

definition js_div :: "nat \<Rightarrow> nat \<Rightarrow> jsnum" where
  "js_div a b =
     (if b = 0 then (if a = 0 then NaN else Infinity) else double (of_nat a / of_nat b))"

text \<open>\<open>x * k\<close> for a finite \<open>k\<close> that a double holds as it is, such as 100.\<close>

fun js_times :: "jsnum \<Rightarrow> rat \<Rightarrow> jsnum" where
  "js_times NaN k = NaN"
| "js_times Infinity k = (if k = 0 then NaN else if 0 < k then Infinity else NegInfinity)"
| "js_times NegInfinity k = (if k = 0 then NaN else if 0 < k then NegInfinity else Infinity)"
| "js_times (Num q) k = double (q * k)"

text \<open>\<open>Math.round\<close>: the nearest integer, a half rounded up; exact on every double.\<close>

fun Math_round :: "jsnum \<Rightarrow> jsnum" where
  "Math_round NaN = NaN"
| "Math_round Infinity = Infinity"
| "Math_round NegInfinity = NegInfinity"
| "Math_round (Num q) = Num (of_int \<lfloor>q + 1 / 2\<rfloor>)"

definition progress :: "nat \<Rightarrow> nat \<Rightarrow> jsnum" where
  "progress bytesRead fileSize = Math_round (js_times (js_div bytesRead fileSize) 100)"

subsection \<open>The answers of \<open>videos.list\<close>\<close>

datatype processingProgress = ProcessingProgress (progress_timeLeftMs: "jsval option")

datatype processingDetails =
  ProcessingDetails (processingStatus: "string option")
    (processingProgress: "processingProgress option")

datatype thumbnail = Thumbnail (thumbnail_url: "string option")

datatype thumbnails = Thumbnails (high: "thumbnail option")

datatype video_snippet = VideoSnippet (thumbnails: "thumbnails option")

datatype video =
  Video (processingDetails: "processingDetails option") (video_snippet: "video_snippet option")

datatype list_data = ListData (items: "video list option")

datatype list_response = ListResponse (data: "list_data option")

text \<open>
  An awaited call of \<open>videos.list\<close> throws or yields \<open>details\<close>. \<open>details?.data?.items[0]\<close>
  is \<open>undefined\<close> when \<open>details\<close> or \<open>data\<close> is missing or the array is empty, and a
  \<open>TypeError\<close> when \<open>data\<close> has no \<open>items\<close>.
\<close>

type_synonym list_result = "js_error + list_response option"

definition items0 :: "list_response option \<Rightarrow> js_error + video option" where
  "items0 details =
     (case Option.bind details data of
        None \<Rightarrow> Inr None
      | Some d \<Rightarrow>
          (case items d of
             None \<Rightarrow> Inl TypeError
           | Some vs \<Rightarrow> Inr (case vs of [] \<Rightarrow> None | v # _ \<Rightarrow> Some v)))"

text \<open>\<open>a || b\<close>\<close>

definition js_or :: "jsval option \<Rightarrow> jsval option \<Rightarrow> jsval option" where
  "js_or a b = (if truthy a then a else b)"

text \<open>What the program does to the outside world while it uploads and polls.\<close>

datatype io =
  SetTimeout "jsval option"
  | VideosList string
  | Fetch string
  | Progress jsnum

subsection \<open>\<open>checkVideoProcessing\<close>\<close>

text \<open>
  The function has the one parameter \<open>timeLeftMs\<close>, bound to the first argument of a call
  (\<open>undefined\<close> when there is none); \<open>id\<close> is the variable of the enclosing \<open>processing\<close>.
  Each answer of \<open>videos.list\<close> is one iteration; with none left the loop is waiting.
\<close>

fun checkVideoProcessing ::
  "string \<Rightarrow> jsval option list \<Rightarrow> list_result list \<Rightarrow> io list \<times> unit outcome" where
  "checkVideoProcessing id' arguments [] =
     (let timeLeftMs = (case arguments of [] \<Rightarrow> None | a # _ \<Rightarrow> a)
      in ([SetTimeout timeLeftMs, VideosList id'], Pending))"
| "checkVideoProcessing id' arguments (response # rest) =
     (let timeLeftMs = (case arguments of [] \<Rightarrow> None | a # _ \<Rightarrow> a)
      in case response of
           Inl e \<Rightarrow> ([SetTimeout timeLeftMs, VideosList id'], Threw e)
         | Inr details \<Rightarrow>
             (case items0 details of
                Inl e \<Rightarrow> ([SetTimeout timeLeftMs, VideosList id'], Threw e)
              | Inr video \<Rightarrow>
                  if Option.bind (Option.bind video processingDetails) processingStatus
                       = Some ''succeeded''
                  then ([SetTimeout timeLeftMs, VideosList id'], Returned ())
                  else
                    (let newTimeLeftMs =
                           js_or (Option.bind (Option.bind (Option.bind video processingDetails)
                                    processingProgress) progress_timeLeftMs)
                                 timeLeftMs
                     in after [SetTimeout timeLeftMs, VideosList id']
                          (checkVideoProcessing id' [Some (JString id'), newTimeLeftMs] rest))))"

subsection \<open>\<open>checkThumbnailProcessing\<close>\<close>

text \<open>\<open>response.ok\<close>: the status is in the range 200 to 299.\<close>

definition ok :: "nat \<Rightarrow> bool" where
  "ok st = (200 \<le> st \<and> st \<le> 299)"

text \<open>
  One iteration takes an answer of \<open>videos.list\<close> and what \<open>fetch\<close> does for a URL: a throw
  or a response with its status.
\<close>

type_synonym thumbnail_poll = "list_result \<times> (string \<Rightarrow> js_error + nat)"

fun checkThumbnailProcessing :: "string \<Rightarrow> thumbnail_poll list \<Rightarrow> io list \<times> unit outcome" where
  "checkThumbnailProcessing id' [] =
     ([SetTimeout (Some (JNumber (Num 5000))), VideosList id'], Pending)"
| "checkThumbnailProcessing id' ((response, fetch) # rest) =
     (case response of
        Inl e \<Rightarrow> ([SetTimeout (Some (JNumber (Num 5000))), VideosList id'], Threw e)
      | Inr details \<Rightarrow>
          (case items0 details of
             Inl e \<Rightarrow> ([SetTimeout (Some (JNumber (Num 5000))), VideosList id'], Threw e)
           | Inr video \<Rightarrow>
               (let thumbnailURL =
                      Option.bind (Option.bind (Option.bind (Option.bind video video_snippet)
                        thumbnails) high) thumbnail_url
                in case thumbnailURL of
                     None \<Rightarrow> ([SetTimeout (Some (JNumber (Num 5000))), VideosList id'], Returned ())
                   | Some u \<Rightarrow>
                       if truthy_str thumbnailURL then
                         (case fetch u of
                            Inl error \<Rightarrow>
                              after [SetTimeout (Some (JNumber (Num 5000))), VideosList id', Fetch u]
                                (checkThumbnailProcessing id' rest)
                          | Inr st \<Rightarrow>
                              if \<not> ok st then
                                after [SetTimeout (Some (JNumber (Num 5000))), VideosList id', Fetch u]
                                  (checkThumbnailProcessing id' rest)
                              else ([SetTimeout (Some (JNumber (Num 5000))), VideosList id', Fetch u],
                                    Returned ()))
                       else ([SetTimeout (Some (JNumber (Num 5000))), VideosList id'],
                             Returned ()))))"

subsection \<open>\<open>upload\<close>, \<open>processing\<close> and \<open>uploadVideo\<close>\<close>

text \<open>
  What the outside world does during \<open>uploadVideo\<close>: the defaults document, the size
  \<open>fs.statSync\<close> reports (or its throw), the \<open>bytesRead\<close> of the progress events, the answer
  of \<open>videos.insert\<close> to the request body (a throw or \<open>data.id\<close>), and the answers to the
  two polling loops.
\<close>

record 'v upload_env =
  uploadDefaults :: "js_error + 'v videoDetails"
  statSync :: "js_error + nat"
  bytesRead :: "nat list"
  videos_insert :: "'v videoDetails \<Rightarrow> js_error + string"
  videos_list :: "list_result list"
  thumbnail_polls :: "thumbnail_poll list"

text \<open>
  \<open>upload\<close> reads \<open>this.#youTubeAPI.videos\<close>: with the private field unset that is a
  \<open>TypeError\<close>, which the \<open>catch\<close> logs and throws again.
\<close>

definition upload ::
  "YoutubeAPI \<Rightarrow> 'v upload_env \<Rightarrow> 'v videoDetails \<Rightarrow> io list \<times> string outcome" where
  "upload this env details =
     (case statSync env of
        Inl e \<Rightarrow> ([], Threw e)
      | Inr fileSize \<Rightarrow>
          (case youTubeAPI this of
             None \<Rightarrow> ([], Threw TypeError)
           | Some yt \<Rightarrow>
               (map (\<lambda>b. Progress (progress b fileSize)) (bytesRead env),
                case videos_insert env details of
                  Inl error \<Rightarrow> Threw error
                | Inr id' \<Rightarrow> Returned id')))"

text \<open>
  \<open>processing(id)\<close>: \<open>timeLeftMs\<close> defaults to 3000; the video loop, then the thumbnail
  loop. The spinner of \<open>loadingText\<close> only writes to the console and is left out.
\<close>

definition processing :: "string \<Rightarrow> 'v upload_env \<Rightarrow> io list \<times> unit outcome" where
  "processing id' env =
     (let timeLeftMs = Some (JNumber (Num 3000));
          r = checkVideoProcessing id' [timeLeftMs] (videos_list env)
      in case snd r of
           Returned u \<Rightarrow> after (fst r) (checkThumbnailProcessing id' (thumbnail_polls env))
         | Threw e \<Rightarrow> r
         | Pending \<Rightarrow> r)"

definition uploadVideo ::
  "YoutubeAPI \<Rightarrow> 'v upload_env \<Rightarrow> 'v videoDetails \<Rightarrow> io list \<times> string outcome" where
  "uploadVideo this env videoDetails =
     (case createDetailsObject (uploadDefaults env) videoDetails of
        Inl e \<Rightarrow> ([], Threw e)
      | Inr detailsObj \<Rightarrow>
          (let r = upload this env detailsObj
           in case snd r of
                Returned id' \<Rightarrow>
                  (let p = processing id' env
                   in (fst r @ fst p,
                       case snd p of
                         Returned u \<Rightarrow> Returned id'
                       | Threw e \<Rightarrow> Threw e
                       | Pending \<Rightarrow> Pending))
              | Threw e \<Rightarrow> r
              | Pending \<Rightarrow> r))"

section \<open>What the claims speak of\<close>

subsection \<open>Scope validation\<close>

text \<open>
  The granted scopes the check of a pass looks at: the list \<open>data.scope.split(" ")\<close>, when
  the callback brought a code (and the process lives), the exchange gave tokens and the
  lookup gave a scope string.
\<close>

definition scopes_granted :: "consent_round \<Rightarrow> string list option" where
  "scopes_granted r =
     (case uncaught (getAuthToken (requests r)) of
        Some e \<Rightarrow> None
      | None \<Rightarrow>
          (case promise (getAuthToken (requests r)) of
             Resolved authToken \<Rightarrow>
               (case getToken r authToken of
                  Inr tokens \<Rightarrow>
                    (case tokeninfo r (access_token tokens) of
                       Inr (Some data_scope) \<Rightarrow> Some (split_sp data_scope)
                     | Inr None \<Rightarrow> None
                     | Inl e \<Rightarrow> None)
                | Inl e \<Rightarrow> None)
           | Unsettled \<Rightarrow> None
           | Rejected e \<Rightarrow> None))"

subsection \<open>The polling loops\<close>

text \<open>An answer of \<open>videos.list\<close> from which the loops can read the first item, and the item.\<close>

definition first_video :: "list_result \<Rightarrow> video option option" where
  "first_video response =
     (case response of
        Inl e \<Rightarrow> None
      | Inr details \<Rightarrow> (case items0 details of Inl e \<Rightarrow> None | Inr video \<Rightarrow> Some video))"

definition readable :: "list_result \<Rightarrow> bool" where
  "readable response = (first_video response \<noteq> None)"

definition reports_succeeded :: "list_result \<Rightarrow> bool" where
  "reports_succeeded response =
     (case first_video response of
        None \<Rightarrow> False
      | Some video \<Rightarrow>
          Option.bind (Option.bind video processingDetails) processingStatus = Some ''succeeded'')"

text \<open>The estimate \<open>processingDetails.processingProgress.timeLeftMs\<close> of an answer.\<close>

definition estimate :: "list_result \<Rightarrow> jsval option" where
  "estimate response =
     (case first_video response of
        None \<Rightarrow> None
      | Some video \<Rightarrow>
          Option.bind (Option.bind (Option.bind video processingDetails) processingProgress)
            progress_timeLeftMs)"

text \<open>The thumbnail URL \<open>snippet.thumbnails.high.url\<close> of an answer.\<close>

definition thumbnailURL :: "list_result \<Rightarrow> string option" where
  "thumbnailURL response =
     (case first_video response of
        None \<Rightarrow> None
      | Some video \<Rightarrow>
          Option.bind (Option.bind (Option.bind (Option.bind video video_snippet) thumbnails)
            high) thumbnail_url)"

text \<open>
  The three kinds of thumbnail iteration the claim tells apart: the URL is there and the
  GET fails (a throw, or a status outside 200 to 299); it is there and the GET succeeds;
  it is not there (missing, or the empty string, which \<open>if (thumbnailURL)\<close> takes as missing).
\<close>

definition get_fails :: "thumbnail_poll \<Rightarrow> bool" where
  "get_fails p =
     (readable (fst p) \<and> truthy_str (thumbnailURL (fst p)) \<and>
      (case thumbnailURL (fst p) of
         None \<Rightarrow> False
       | Some u \<Rightarrow> (case snd p u of Inl e \<Rightarrow> True | Inr st \<Rightarrow> \<not> ok st)))"

definition get_succeeds :: "thumbnail_poll \<Rightarrow> bool" where
  "get_succeeds p =
     (readable (fst p) \<and> truthy_str (thumbnailURL (fst p)) \<and>
      (case thumbnailURL (fst p) of
         None \<Rightarrow> False
       | Some u \<Rightarrow> (case snd p u of Inl e \<Rightarrow> False | Inr st \<Rightarrow> ok st)))"

definition url_absent :: "thumbnail_poll \<Rightarrow> bool" where
  "url_absent p = (readable (fst p) \<and> \<not> truthy_str (thumbnailURL (fst p)))"

text \<open>What one thumbnail iteration does: the wait of 5000 ms, the query and, with a URL, the GET.\<close>

definition thumbnail_iteration :: "string \<Rightarrow> thumbnail_poll \<Rightarrow> io list" where
  "thumbnail_iteration id' p =
     [SetTimeout (Some (JNumber (Num 5000))), VideosList id'] @
     (case thumbnailURL (fst p) of None \<Rightarrow> [] | Some u \<Rightarrow> if u = [] then [] else [Fetch u])"

subsection \<open>Sample runs\<close>

text \<open>A first run: nothing stored, the user consents to both scopes at once.\<close>

definition consent_request :: request where
  "consent_request =
     \<lparr>url = ''/oauth2callback?code=4/0AfJohX'',
      searchParams = Inr [(''code'', ''4/0AfJohX'')]\<rparr>"

definition consent_tokens :: tokens where
  "consent_tokens = \<lparr>access_token = Some ''ya29.a0'', refresh_token = Some ''1//0gRt''\<rparr>"

definition consent_pass :: "string \<Rightarrow> consent_round" where
  "consent_pass granted =
     \<lparr>requests = [consent_request],
      getToken = (\<lambda>code. if code = ''4/0AfJohX'' then Inr consent_tokens
                          else Inl (Failure ''invalid_grant'')),
      tokeninfo = (\<lambda>t. Inr (Some granted))\<rparr>"

definition both_scopes :: string where
  "both_scopes = ''https://www.googleapis.com/auth/youtube.upload https://www.googleapis.com/auth/youtube.force-ssl''"

definition first_run :: init_env where
  "first_run = \<lparr>refreshAccessToken = None, rounds = [consent_pass both_scopes]\<rparr>"

text \<open>A later run: a token is stored and the silent refresh accepts it.\<close>

definition later_run :: init_env where
  "later_run = \<lparr>refreshAccessToken = None, rounds = []\<rparr>"

text \<open>Answers of \<open>videos.list\<close> with a processing status, an estimate and a thumbnail URL.\<close>

definition status_response :: "string \<Rightarrow> jsval option \<Rightarrow> string option \<Rightarrow> list_result" where
  "status_response st left thumb =
     Inr (Some (ListResponse (Some (ListData (Some
       [Video (Some (ProcessingDetails (Some st) (Some (ProcessingProgress left))))
              (Some (VideoSnippet (Some (Thumbnails (Some (Thumbnail thumb))))))])))))"

text \<open>An upload of 1024 bytes that the service accepts, processes and makes a thumbnail for.\<close>

definition sample_upload :: "string upload_env" where
  "sample_upload =
     \<lparr>uploadDefaults =
        Inr \<lparr>snippet = Some [''title'' \<mapsto> ''default'', ''description'' \<mapsto> ''d''], status = None\<rparr>,
      statSync = Inr 1024,
      bytesRead = [512, 1024],
      videos_insert = (\<lambda>body. Inr ''dQw4w9WgXcQ''),
      videos_list =
        [status_response ''processing'' (Some (JNumber (Num 7000))) None,
         status_response ''succeeded'' None None],
      thumbnail_polls =
        [(status_response ''succeeded'' None (Some ''https://i.ytimg.com/vi/dQw4w9WgXcQ/hqdefault.jpg''),
          (\<lambda>u. Inr 200))]\<rparr>"

definition sample_details :: "string videoDetails" where
  "sample_details = \<lparr>snippet = Some [''title'' \<mapsto> ''A''], status = None\<rparr>"

text \<open>
  Grants the consent screen may come back with: one scope only, and two entries of which
  one is not a required scope.
\<close>

definition one_scope :: string where
  "one_scope = ''https://www.googleapis.com/auth/youtube.upload''"


text \<open>A callback whose query string is \<open>code=&error=access_denied\<close>.\<close>

definition empty_code_request :: request where
  "empty_code_request =
     \<lparr>url = ''/oauth2callback?code=&error=access_denied'',
      searchParams = Inr [(''code'', []), (''error'', ''access_denied'')]\<rparr>"

text \<open>A callback that carries a code and an error.\<close>

definition code_and_error_request :: request where
  "code_and_error_request =
     \<lparr>url = ''/oauth2callback?code=4/0AfJohX&error=access_denied'',
      searchParams = Inr [(''code'', ''4/0AfJohX''), (''error'', ''access_denied'')]\<rparr>"

text \<open>The first pass of a first run, with that callback in place of the usual one.\<close>

definition code_and_error_pass :: consent_round where
  "code_and_error_pass =
     \<lparr>requests = [code_and_error_request],
      getToken = (\<lambda>code. if code = ''4/0AfJohX'' then Inr consent_tokens
                          else Inl (Failure ''invalid_grant'')),
      tokeninfo = (\<lambda>t. Inr (Some both_scopes))\<rparr>"

text \<open>
  Thumbnail iterations: the answer names a thumbnail URL and the GET returns 404, fails
  in transport, or returns 200; and an answer without thumbnail URL.
\<close>

definition thumbnail_response :: list_result where
  "thumbnail_response =
     status_response ''succeeded'' None
       (Some ''https://i.ytimg.com/vi/dQw4w9WgXcQ/hqdefault.jpg'')"

definition poll_404 :: thumbnail_poll where
  "poll_404 = (thumbnail_response, (\<lambda>u. Inr 404))"

definition poll_reset :: thumbnail_poll where
  "poll_reset = (thumbnail_response, (\<lambda>u. Inl (Failure ''ECONNRESET'')))"

definition poll_200 :: thumbnail_poll where
  "poll_200 = (thumbnail_response, (\<lambda>u. Inr 200))"

definition poll_no_url :: thumbnail_poll where
  "poll_no_url = (status_response ''succeeded'' None None, (\<lambda>u. Inr 200))"

section \<open>The sample runs, evaluated\<close>

lemma indexOf_consent_request: "indexOf (url consent_request) ''/oauth2callback'' = 0"
  by (simp add: indexOf_def consent_request_def)

lemma getAuthToken_consent_request:
  "getAuthToken [consent_request] =
     \<lparr>promise = Resolved ''4/0AfJohX'', listening = False,
      replies = [''Authentication successful! Please return to the console.''],
      uncaught = None\<rparr>"
  by (simp add: getAuthToken_def createServer_def handler_def indexOf_consent_request)
     (simp add: consent_request_def searchParams_get_def resolve_def server_close_def res_end_def)

lemma split_sp_both_scopes:
  "split_sp both_scopes =
     [''https://www.googleapis.com/auth/youtube.upload'',
      ''https://www.googleapis.com/auth/youtube.force-ssl'']"
  by (simp add: both_scopes_def)

lemma doOAuth_first_run: "doOAuth False [consent_pass both_scopes] = (Returned consent_tokens, 0)"
  by (simp add: getAuthToken_consent_request consent_pass_def split_sp_both_scopes)

lemma init_first_run:
  "init (new_YoutubeAPI None) first_run =
     ([Authorize],
      Returned \<lparr>oauth2Client = consent_tokens, refreshToken = Some ''1//0gRt'',
                youTubeAPI = None, youtubeApi = Some (Youtube ''v3'')\<rparr>)"
  by (simp add: init_def new_YoutubeAPI_def authorize_def first_run_def doOAuth_first_run
        consent_tokens_def del: doOAuth.simps)

lemma init_later_run:
  "init (new_YoutubeAPI (Some ''1//0gRt'')) later_run =
     ([RefreshAccessToken],
      Returned \<lparr>oauth2Client = \<lparr>access_token = None, refresh_token = Some ''1//0gRt''\<rparr>,
                refreshToken = Some ''1//0gRt'',
                youTubeAPI = Some (Youtube ''v3''), youtubeApi = None\<rparr>)"
  by (simp add: init_def new_YoutubeAPI_def isValid_def later_run_def)

lemma createDetailsObject_sample:
  "createDetailsObject (uploadDefaults sample_upload) sample_details =
     Inr \<lparr>snippet = Some [''title'' \<mapsto> ''A'', ''description'' \<mapsto> ''d''],
          status = Some Map.empty\<rparr>"
  by (auto simp add: createDetailsObject_def sample_upload_def sample_details_def spread_def)

text \<open>Doubles hold the numbers of these runs as they are; \<open>23 / 40\<close> they do not.\<close>

lemma double_1: "double 1 = Num 1"
  by (simp add: double_def exponent_def round_half_even_def Let_def)

lemma double_100: "double 100 = Num 100"
  by (simp add: double_def exponent_def round_half_even_def Let_def)

lemma double_50: "double 50 = Num 50"
  by (simp add: double_def exponent_def round_half_even_def Let_def)

lemma double_half: "double (1 / 2) = Num (1 / 2)"
  by (simp add: double_def exponent_def round_half_even_def Let_def)

lemma progress_half: "progress 512 1024 = Num 50"
  by (simp add: progress_def js_div_def double_half double_50 floor_eq_iff)

lemma progress_full: "progress 1024 1024 = Num 100"
  by (simp add: progress_def js_div_def double_1 double_100 floor_eq_iff)

lemma progress_23_of_40: "progress 23 40 = Num 57"
  by code_simp

lemma upload_sample:
  "upload \<lparr>oauth2Client = c, refreshToken = t, youTubeAPI = Some y, youtubeApi = z\<rparr>
     sample_upload d
   = ([Progress (Num 50), Progress (Num 100)], Returned ''dQw4w9WgXcQ'')"
  by (simp add: upload_def sample_upload_def progress_half progress_full)

lemma processing_sample:
  "processing ''dQw4w9WgXcQ'' sample_upload =
     ([SetTimeout (Some (JNumber (Num 3000))), VideosList ''dQw4w9WgXcQ'',
       SetTimeout (Some (JString ''dQw4w9WgXcQ'')), VideosList ''dQw4w9WgXcQ'',
       SetTimeout (Some (JNumber (Num 5000))), VideosList ''dQw4w9WgXcQ'',
       Fetch ''https://i.ytimg.com/vi/dQw4w9WgXcQ/hqdefault.jpg''],
      Returned ())"
  by (simp add: processing_def sample_upload_def status_response_def items0_def after_def
        js_or_def ok_def Let_def)

lemma uploadVideo_later_run:
  "uploadVideo \<lparr>oauth2Client = c, refreshToken = t, youTubeAPI = Some y, youtubeApi = z\<rparr>
     sample_upload sample_details
   = ([Progress (Num 50), Progress (Num 100),
       SetTimeout (Some (JNumber (Num 3000))), VideosList ''dQw4w9WgXcQ'',
       SetTimeout (Some (JString ''dQw4w9WgXcQ'')), VideosList ''dQw4w9WgXcQ'',
       SetTimeout (Some (JNumber (Num 5000))), VideosList ''dQw4w9WgXcQ'',
       Fetch ''https://i.ytimg.com/vi/dQw4w9WgXcQ/hqdefault.jpg''],
      Returned ''dQw4w9WgXcQ'')"
  by (simp add: uploadVideo_def createDetailsObject_sample upload_sample processing_sample)

lemma uploadVideo_client_unset:
  "uploadVideo \<lparr>oauth2Client = c, refreshToken = t, youTubeAPI = None, youtubeApi = z\<rparr>
     sample_upload sample_details
   = ([], Threw TypeError)"
  by (simp add: uploadVideo_def createDetailsObject_sample upload_def)
     (simp add: sample_upload_def)

section \<open>Persistence of the refresh token\<close>

text \<open>
  Claim C1. The refresh token written to the Secret Store after \<open>init\<close> should be the one
  the next process start reads. On a first run (empty store, consent given) the program
  ends with the token \<open>1//0gRt\<close> and writes it under the service \<open>youTubeRemoteUpload\<close>;
  the entry that the start reads, under the service \<open>YouTubeRemoteUpload\<close>, is still
  missing afterwards. The two service names differ in their first letter.
\<close>

theorem startup_token_not_read_back:
  "map_outcome (\<lambda>(store', api). (refreshToken api,
       getPassword store' ''youTubeRemoteUpload'' ''refreshToken'',
       getPassword store' ''YouTubeRemoteUpload'' ''refreshToken''))
     (startup Map.empty first_run)
   = Returned (Some ''1//0gRt'', Some ''1//0gRt'', None)"
  by (simp add: startup_def getPassword_def init_first_run setPassword_def)

section \<open>The authorized client after \<open>init\<close>\<close>

text \<open>
  \<open>#authorize\<close> never writes the private field, whatever the consent flow does, and an
  upload with the private field unset throws before anything is sent.
\<close>

lemma authorize_keeps_private_field:
  "snd (authorize this passes) = Returned api \<Longrightarrow> youTubeAPI api = youTubeAPI this"
  by (auto simp: authorize_def split: outcome.splits)

lemma init_consent_path_private_field:
  assumes "Authorize \<in> set (fst (init this env))" and "snd (init this env) = Returned api"
  shows "youTubeAPI api = youTubeAPI this"
  using assms
  by (auto simp: init_def isValid_def after_def Let_def authorize_def
      split: if_splits option.splits outcome.splits)

lemma uploadVideo_needs_private_field:
  "youTubeAPI this = None \<Longrightarrow> \<exists>e. uploadVideo this env videoDetails = ([], Threw e)"
  by (auto simp: uploadVideo_def upload_def Let_def split: sum.splits)

text \<open>
  Claim C2. After \<open>init\<close> the client \<open>uploadVideo\<close> uses should be set on both paths. On
  the consent path \<open>init\<close> returns with the private field \<open>#youTubeAPI\<close> unset (the client
  went to the public property \<open>youtubeApi\<close>), and \<open>uploadVideo\<close> throws a \<open>TypeError\<close>
  before anything is sent; on the path of a valid stored token the private field is set
  and the same upload returns the video id.
\<close>

theorem consent_path_leaves_client_unset:
  "map_outcome (\<lambda>api. (youTubeAPI api, youtubeApi api,
                        uploadVideo api sample_upload sample_details))
     (snd (init (new_YoutubeAPI None) first_run))
   = Returned (None, Some (Youtube ''v3''), [], Threw TypeError)
   \<and> map_outcome (\<lambda>api. (youTubeAPI api, youtubeApi api,
                          snd (uploadVideo api sample_upload sample_details)))
       (snd (init (new_YoutubeAPI (Some ''1//0gRt'')) later_run))
     = Returned (Some (Youtube ''v3''), None, Returned ''dQw4w9WgXcQ'')"
  by (simp add: init_first_run init_later_run uploadVideo_later_run uploadVideo_client_unset)

section \<open>Session Manager branching\<close>

text \<open>
  Claim C9. \<open>init\<close> does not call the consent flow when a stored token is accepted by the
  silent refresh, and calls it exactly once when the refresh reports any error or no token
  is stored. A stored empty string is no token for \<open>if (this.refreshToken)\<close>.
\<close>

theorem init_consent_flow_calls:
  "count_list (fst (init this env)) Authorize =
     (if truthy_str (refreshToken this) \<and> refreshAccessToken env = None then 0 else 1)"
  by (simp add: init_def isValid_def authorize_def after_def Let_def split: option.split)

section \<open>Scope validation\<close>

text \<open>Resolving the promise and closing the server happen in one step of the handler.\<close>

lemma handler_resolved_closed:
  assumes "\<And>c. promise st = Resolved c \<Longrightarrow> \<not> listening st"
  shows "promise (handler req st) = Resolved c \<Longrightarrow> \<not> listening (handler req st)"
  using assms
  by (auto simp: handler_def resolve_def reject_def server_close_def res_end_def Let_def
      split: sum.splits option.splits if_splits)

lemma serve_resolved_closed:
  assumes "\<And>c. promise st = Resolved c \<Longrightarrow> \<not> listening st"
  shows "promise (serve reqs st) = Resolved c \<Longrightarrow> \<not> listening (serve reqs st)"
  using assms
proof (induction reqs arbitrary: st)
  case Nil
  then show ?case by simp
next
  case (Cons req reqs)
  show ?case
  proof (cases "listening st \<and> uncaught st = None")
    case True
    have "\<not> listening (serve reqs (handler req st))"
    proof (rule Cons.IH)
      show "promise (serve reqs (handler req st)) = Resolved c"
        using Cons.prems(1) True by simp
    next
      fix c' assume "promise (handler req st) = Resolved c'"
      then show "\<not> listening (handler req st)"
        using handler_resolved_closed [of st req c'] Cons.prems(2) by blast
    qed
    then show ?thesis using True by simp
  next
    case False
    then show ?thesis using Cons.prems by auto
  qed
qed

lemma getAuthToken_resolved_closed:
  "promise (getAuthToken reqs) = Resolved c \<Longrightarrow> \<not> listening (getAuthToken reqs)"
  unfolding getAuthToken_def
  by (rule serve_resolved_closed) (simp_all add: createServer_def)


lemma split_sp_one_scope: "split_sp one_scope = [one_scope]"
  by (simp add: one_scope_def)


text \<open>
  What the check does: it counts the entries of the list the lookup gave. With fewer than
  two the pass does not return its tokens, and the flow prompts again and goes on with the
  next pass; with two or more the flow ends with the tokens of the pass.
\<close>

lemma scope_check_counts_entries:
  assumes "scopes_granted r = Some scopes"
  shows "if length scopes < 2
         then doOAuth False (r # rs) = (fst (doOAuth False rs), Suc (snd (doOAuth False rs)))
         else \<exists>tokens. doOAuth False (r # rs) = (Returned tokens, 0)"
proof -
  from assms obtain authToken tokens data_scope where
    u: "uncaught (getAuthToken (requests r)) = None" and
    p: "promise (getAuthToken (requests r)) = Resolved authToken" and
    g: "getToken r authToken = Inr tokens" and
    t: "tokeninfo r (access_token tokens) = Inr (Some data_scope)" and
    s: "scopes = split_sp data_scope"
    by (auto simp: scopes_granted_def split: promise.splits sum.splits option.splits)
  have closed: "listening (getAuthToken (requests r)) = False"
    using getAuthToken_resolved_closed [OF p] by simp
  show ?thesis
    using u p g t s closed by (simp add: redoConsent_def)
qed

text \<open>
  The count agrees with the test for both required scopes as long as the entries are
  distinct and are among the two scopes asked for; on any other list the two differ.
\<close>

lemma count_agrees_on_requested_scopes:
  assumes "distinct scopes" and "set scopes \<subseteq> set scope"
  shows "length scopes < 2 \<longleftrightarrow> \<not> set scope \<subseteq> set scopes"
proof -
  have c: "card (set scope) = 2" by (simp add: scope_def)
  have l: "length scopes = card (set scopes)"
    using assms(1) by (simp add: distinct_card)
  have le: "card (set scopes) \<le> 2"
    using card_mono [OF _ assms(2)] c by simp
  show ?thesis
  proof
    assume "length scopes < 2"
    then have "card (set scopes) < card (set scope)" using l c by simp
    then show "\<not> set scope \<subseteq> set scopes"
      using card_mono [of "set scopes" "set scope"] by auto
  next
    assume n: "\<not> set scope \<subseteq> set scopes"
    then have "set scopes \<subset> set scope" using assms(2) by auto
    then have "card (set scopes) < card (set scope)"
      by (simp add: psubset_card_mono)
    then show "length scopes < 2" using l c by simp
  qed
qed


section \<open>A callback with a code and an error\<close>

lemma serve_skips:
  assumes "\<forall>q\<in>set pre. \<not> indexOf (url q) ''/oauth2callback'' > - 1"
  shows "serve (pre @ reqs) st = serve reqs st"
  using assms
proof (induction pre)
  case Nil
  then show ?case by simp
next
  case (Cons q pre)
  then have "handler q st = st" by (simp add: handler_def)
  with Cons show ?case by (cases reqs) auto
qed

lemma indexOf_code_and_error: "indexOf (url code_and_error_request) ''/oauth2callback'' = 0"
  by (simp add: indexOf_def code_and_error_request_def)

lemma indexOf_empty_code: "indexOf (url empty_code_request) ''/oauth2callback'' = 0"
  by (simp add: indexOf_def empty_code_request_def)

text \<open>
  With the query string \<open>code=&error=access_denied\<close> both parameters are non-null, the
  empty code is falsy for \<open>if (code)\<close>, and the promise rejects with the error.
\<close>

lemma empty_code_is_rejected:
  "searchParams empty_code_request = Inr [(''code'', []), (''error'', ''access_denied'')]
   \<and> searchParams_get [(''code'', []), (''error'', ''access_denied'')] ''code'' = Some []
   \<and> searchParams_get [(''code'', []), (''error'', ''access_denied'')] ''error''
       = Some ''access_denied''
   \<and> promise (getAuthToken [empty_code_request]) = Rejected (Failure ''access_denied'')
   \<and> uncaught (getAuthToken [empty_code_request]) = None"
  by (simp add: getAuthToken_def createServer_def handler_def indexOf_empty_code)
     (simp add: empty_code_request_def searchParams_get_def reject_def server_close_def
        res_end_def)

text \<open>
  For every first matching request with a non-empty code and a non-empty error: the
  promise resolves with the code and the server is closed, but the response is ended a
  second time, the process ends on the unhandled error, and \<open>doOAuth\<close> never reaches
  \<open>getToken\<close>, whatever requests and passes follow.
\<close>

lemma callback_code_and_error:
  assumes "\<forall>q\<in>set pre. \<not> indexOf (url q) ''/oauth2callback'' > - 1"
    and "indexOf (url req) ''/oauth2callback'' > - 1"
    and "searchParams req = Inr myURL"
    and "searchParams_get myURL ''code'' = Some code"
    and "code \<noteq> []"
    and "searchParams_get myURL ''error'' = Some error"
    and "error \<noteq> []"
  shows "promise (getAuthToken (pre @ req # reqs)) = Resolved code
         \<and> \<not> listening (getAuthToken (pre @ req # reqs))
         \<and> uncaught (getAuthToken (pre @ req # reqs))
             = Some (Failure ''ERR_STREAM_WRITE_AFTER_END'')
         \<and> (requests r = pre @ req # reqs \<longrightarrow>
              doOAuth False (r # rs) = (Threw (Failure ''ERR_STREAM_WRITE_AFTER_END''), 0))"
proof -
  have "getAuthToken (pre @ req # reqs) = serve (req # reqs) createServer"
    unfolding getAuthToken_def using assms(1) by (rule serve_skips)
  also have "\<dots> = serve reqs (handler req createServer)"
    by (simp add: createServer_def)
  finally have eq: "getAuthToken (pre @ req # reqs) = serve reqs (handler req createServer)" .
  have h: "promise (handler req createServer) = Resolved code
           \<and> \<not> listening (handler req createServer)
           \<and> uncaught (handler req createServer) = Some (Failure ''ERR_STREAM_WRITE_AFTER_END'')"
    using assms(2-7)
    by (simp add: handler_def createServer_def resolve_def reject_def server_close_def
          res_end_def Let_def)
  then have "serve reqs (handler req createServer) = handler req createServer"
    by (cases reqs) simp_all
  with eq h have g: "promise (getAuthToken (pre @ req # reqs)) = Resolved code
         \<and> \<not> listening (getAuthToken (pre @ req # reqs))
         \<and> uncaught (getAuthToken (pre @ req # reqs))
             = Some (Failure ''ERR_STREAM_WRITE_AFTER_END'')"
    by simp
  then show ?thesis by simp
qed

text \<open>
  Claim C10. When the first matching request carries a code and an error, the code
  branch should take effect and the flow proceed with the authorization code. On the
  callback \<open>/oauth2callback?code=4/0AfJohX&error=access_denied\<close> the promise does
  resolve with the code and the server is closed, but the handler goes on into the error
  branch and ends the same response a second time: the process ends on the unhandled
  \<open>ERR_STREAM_WRITE_AFTER_END\<close> and the code is never exchanged, where the same pass
  with the code alone returns the tokens.
\<close>

theorem code_and_error_ends_process:
  "promise (getAuthToken [code_and_error_request]) = Resolved ''4/0AfJohX''
   \<and> \<not> listening (getAuthToken [code_and_error_request])
   \<and> replies (getAuthToken [code_and_error_request])
       = [''Authentication successful! Please return to the console.'']
   \<and> uncaught (getAuthToken [code_and_error_request])
       = Some (Failure ''ERR_STREAM_WRITE_AFTER_END'')
   \<and> doOAuth False [code_and_error_pass] = (Threw (Failure ''ERR_STREAM_WRITE_AFTER_END''), 0)
   \<and> doOAuth False [consent_pass both_scopes] = (Returned consent_tokens, 0)"
proof -
  have g: "getAuthToken [code_and_error_request] =
             \<lparr>promise = Resolved ''4/0AfJohX'', listening = False,
              replies = [''Authentication successful! Please return to the console.''],
              uncaught = Some (Failure ''ERR_STREAM_WRITE_AFTER_END'')\<rparr>"
    by (simp add: getAuthToken_def createServer_def handler_def indexOf_code_and_error)
       (simp add: code_and_error_request_def searchParams_get_def resolve_def reject_def
          server_close_def res_end_def)
  have d: "doOAuth False [code_and_error_pass]
             = (Threw (Failure ''ERR_STREAM_WRITE_AFTER_END''), 0)"
    by (simp add: code_and_error_pass_def g)
  from g d doOAuth_first_run show ?thesis by simp
qed

section \<open>Upload progress on an empty file\<close>

text \<open>
  Claim C5, as stated, fails: for a file of 0 bytes and a progress event with
  \<open>bytesRead = 0\<close> the computed progress is \<open>NaN\<close>, not 100.
\<close>

theorem progress_zero_byte_file: "progress 0 0 = NaN \<and> progress 0 0 \<noteq> Num 100"
  by (simp add: progress_def js_div_def)

text \<open>
  Claim C5, amended. The progress computation has no guard against a file size of 0. At
  a progress event with \<open>bytesRead\<close> equal to \<open>fileSize\<close> the reported progress is 100 for
  every file that is not empty, and \<open>NaN\<close> for the empty file.
\<close>

theorem progress_at_end:
  "progress fileSize fileSize = (if fileSize = 0 then NaN else Num 100)"
  by (simp add: progress_def js_div_def double_1 double_100 floor_eq_iff)

section \<open>The metadata merge\<close>

lemma map_add_case:
  "(m ++ n) = (\<lambda>k. case n k of Some v \<Rightarrow> Some v | None \<Rightarrow> m k)"
  by (rule ext) (simp add: map_add_def split: option.split)

lemma map_add_twice: "(m ++ n) ++ n = m ++ n"
  by (rule ext) (simp add: map_add_def split: option.split)

lemma merge_example:
  "[''title'' \<mapsto> ''default'', ''description'' \<mapsto> ''d''] ++ [''title'' \<mapsto> ''A'']
   = [''title'' \<mapsto> ''A'', ''description'' \<mapsto> ''d'']"
  by (rule ext) simp

lemma map_add_absorb: "m ++ m ++ n = m ++ n"
  by (rule ext) (simp add: map_add_def split: option.split)

text \<open>
  Claim C8, as stated, fails in its example: merging \<open>{snippet:{title:"A"}}\<close> over the
  defaults \<open>{snippet:{title:"default",description:"d"}}\<close> does not yield the object with
  the one section \<open>snippet\<close>; the result has a section \<open>status\<close> as well.
\<close>

theorem merge_example_has_status:
  "createDetailsObject
     (Inr \<lparr>snippet = Some [''title'' \<mapsto> ''default'', ''description'' \<mapsto> ''d''],
           status = None\<rparr>)
     \<lparr>snippet = Some [''title'' \<mapsto> ''A''], status = None\<rparr>
   \<noteq> Inr \<lparr>snippet = Some [''title'' \<mapsto> ''A'', ''description'' \<mapsto> ''d''],
           status = None\<rparr>"
  by (simp add: createDetailsObject_def)

text \<open>
  Claim C8, amended. In each of the sections \<open>snippet\<close> and \<open>status\<close> the merged object
  has, at every key, the caller's value when the caller gives one and the default
  otherwise; the values are never looked into, so an object nested in a section is
  replaced as a whole (last conjunct). The merge is idempotent: merging the caller's
  fields again over the result, or the result over the defaults, changes nothing. The
  result always has both sections: the example of the spec yields
  \<open>{snippet:{title:"A",description:"d"}, status:{}}\<close>.
\<close>

theorem createDetailsObject_merge:
  "createDetailsObject (Inr defaults) userDefined =
     Inr \<lparr>snippet = Some (\<lambda>k. case spread (snippet userDefined) k of
                                  Some v \<Rightarrow> Some v
                                | None \<Rightarrow> spread (snippet defaults) k),
          status = Some (\<lambda>k. case spread (status userDefined) k of
                                 Some v \<Rightarrow> Some v
                               | None \<Rightarrow> spread (status defaults) k)\<rparr>
   \<and> createDetailsObject (createDetailsObject (Inr defaults) userDefined) userDefined
       = createDetailsObject (Inr defaults) userDefined
   \<and> createDetailsObject (Inr defaults)
        \<lparr>snippet = Some (spread (snippet defaults) ++ spread (snippet userDefined)),
         status = Some (spread (status defaults) ++ spread (status userDefined))\<rparr>
       = createDetailsObject (Inr defaults) userDefined
   \<and> createDetailsObject
        (Inr \<lparr>snippet = Some [''title'' \<mapsto> ''default'', ''description'' \<mapsto> ''d''],
              status = None\<rparr>)
        \<lparr>snippet = Some [''title'' \<mapsto> ''A''], status = None\<rparr>
       = Inr \<lparr>snippet = Some [''title'' \<mapsto> ''A'', ''description'' \<mapsto> ''d''],
              status = Some Map.empty\<rparr>
   \<and> createDetailsObject
        (Inr \<lparr>snippet = Some [''localized'' \<mapsto> [''title'' \<mapsto> ''t'', ''description'' \<mapsto> ''d'']],
              status = None\<rparr>)
        \<lparr>snippet = Some [''localized'' \<mapsto> [''title'' \<mapsto> ''A'']], status = None\<rparr>
       = Inr \<lparr>snippet = Some [''localized'' \<mapsto> [''title'' \<mapsto> ''A'']],
              status = Some Map.empty\<rparr>"
proof -
  have 1: "createDetailsObject (Inr defaults) userDefined =
     Inr \<lparr>snippet = Some (\<lambda>k. case spread (snippet userDefined) k of
                                  Some v \<Rightarrow> Some v
                                | None \<Rightarrow> spread (snippet defaults) k),
          status = Some (\<lambda>k. case spread (status userDefined) k of
                                 Some v \<Rightarrow> Some v
                               | None \<Rightarrow> spread (status defaults) k)\<rparr>"
    by (simp add: createDetailsObject_def map_add_case)
  have 2: "createDetailsObject (createDetailsObject (Inr defaults) userDefined) userDefined
       = createDetailsObject (Inr defaults) userDefined"
    by (simp add: createDetailsObject_def spread_def map_add_twice)
  have 3: "createDetailsObject (Inr defaults)
        \<lparr>snippet = Some (spread (snippet defaults) ++ spread (snippet userDefined)),
         status = Some (spread (status defaults) ++ spread (status userDefined))\<rparr>
       = createDetailsObject (Inr defaults) userDefined"
    by (simp add: createDetailsObject_def spread_def map_add_absorb)
  have 4: "createDetailsObject
        (Inr \<lparr>snippet = Some [''title'' \<mapsto> ''default'', ''description'' \<mapsto> ''d''],
              status = None\<rparr>)
        \<lparr>snippet = Some [''title'' \<mapsto> ''A''], status = None\<rparr>
       = Inr \<lparr>snippet = Some [''title'' \<mapsto> ''A'', ''description'' \<mapsto> ''d''],
              status = Some Map.empty\<rparr>"
    by (simp add: createDetailsObject_def spread_def merge_example del: map_add_upd)
  have 5: "createDetailsObject
        (Inr \<lparr>snippet = Some [''localized'' \<mapsto> [''title'' \<mapsto> ''t'', ''description'' \<mapsto> ''d'']],
              status = None\<rparr>)
        \<lparr>snippet = Some [''localized'' \<mapsto> [''title'' \<mapsto> ''A'']], status = None\<rparr>
       = Inr \<lparr>snippet = Some [''localized'' \<mapsto> [''title'' \<mapsto> ''A'']],
              status = Some Map.empty\<rparr>"
    by (simp add: createDetailsObject_def spread_def)
  from 1 2 3 4 5 show ?thesis by blast
qed

section \<open>The video loop\<close>

lemma readable_status_response: "readable (status_response st left thumb)"
  by (simp add: readable_def first_video_def status_response_def items0_def)

lemma reports_succeeded_status_response:
  "reports_succeeded (status_response st left thumb) = (st = ''succeeded'')"
  by (simp add: reports_succeeded_def first_video_def status_response_def items0_def)

lemma thumbnailURL_status_response: "thumbnailURL (status_response st left thumb) = thumb"
  by (simp add: thumbnailURL_def first_video_def status_response_def items0_def)

text \<open>One iteration on an answer whose first item can be read.\<close>

lemma checkVideoProcessing_step:
  assumes "readable r"
  shows "checkVideoProcessing id' args (r # rest) =
           (let timeLeftMs = (case args of [] \<Rightarrow> None | a # _ \<Rightarrow> a)
            in if reports_succeeded r
               then ([SetTimeout timeLeftMs, VideosList id'], Returned ())
               else after [SetTimeout timeLeftMs, VideosList id']
                      (checkVideoProcessing id'
                         [Some (JString id'), js_or (estimate r) timeLeftMs] rest))"
  using assms
  by (auto simp: readable_def first_video_def reports_succeeded_def estimate_def Let_def
      split: sum.splits)

lemma checkVideoProcessing_returns_only_on_succeeded:
  "snd (checkVideoProcessing id' args rs) = Returned () \<Longrightarrow> \<exists>r\<in>set rs. reports_succeeded r"
proof (induction rs arbitrary: args)
  case Nil
  then show ?case by (simp add: Let_def)
next
  case (Cons r rs)
  show ?case
  proof (cases "readable r")
    case True
    show ?thesis
    proof (cases "reports_succeeded r")
      case True
      then show ?thesis by simp
    next
      case False
      with \<open>readable r\<close> Cons.prems
      have "snd (checkVideoProcessing id'
                   [Some (JString id'),
                    js_or (estimate r) (case args of [] \<Rightarrow> None | a # _ \<Rightarrow> a)] rs) = Returned ()"
        by (simp add: checkVideoProcessing_step after_def Let_def del: checkVideoProcessing.simps)
      then have "\<exists>r\<in>set rs. reports_succeeded r" by (rule Cons.IH)
      then show ?thesis by auto
    qed
  next
    case False
    with Cons.prems show ?thesis
      by (auto simp: readable_def first_video_def Let_def split: sum.splits)
  qed
qed

lemma checkVideoProcessing_readable:
  assumes "\<forall>r\<in>set rs. readable r"
  shows "snd (checkVideoProcessing id' args rs) =
           (if \<exists>r\<in>set rs. reports_succeeded r then Returned () else Pending)
         \<and> count_list (fst (checkVideoProcessing id' args rs)) (VideosList id') =
             Suc (length (takeWhile (\<lambda>r. \<not> reports_succeeded r) rs))"
  using assms
proof (induction rs arbitrary: args)
  case Nil
  then show ?case by (simp add: Let_def)
next
  case (Cons r rs)
  then have r: "readable r" and rs: "\<forall>r\<in>set rs. readable r" by simp_all
  show ?case
  proof (cases "reports_succeeded r")
    case True
    then show ?thesis
      using r by (simp add: checkVideoProcessing_step Let_def del: checkVideoProcessing.simps)
  next
    case False
    then show ?thesis
      using r Cons.IH [OF rs]
      by (simp add: checkVideoProcessing_step after_def Let_def del: checkVideoProcessing.simps)
  qed
qed

text \<open>
  Claim C6. The video loop returns only on an answer that reports the status
  "succeeded": whatever the answers and however many, if it has returned then one of them
  reported "succeeded". Over answers that are status responses (the query was answered
  and the first item can be read) the loop has returned exactly when one of them reports
  "succeeded", it is still polling otherwise, and it makes one query for each answer up to
  and including the first that reports "succeeded", so that answer ends it.
\<close>

theorem video_loop_ends_on_succeeded:
  "(snd (checkVideoProcessing id' args rs) = Returned () \<longrightarrow>
      (\<exists>r\<in>set rs. reports_succeeded r))
   \<and> ((\<forall>r\<in>set rs. readable r) \<longrightarrow>
        snd (checkVideoProcessing id' args rs) =
          (if \<exists>r\<in>set rs. reports_succeeded r then Returned () else Pending)
        \<and> count_list (fst (checkVideoProcessing id' args rs)) (VideosList id') =
            Suc (length (takeWhile (\<lambda>r. \<not> reports_succeeded r) rs)))"
  using checkVideoProcessing_returns_only_on_succeeded [of id' args rs]
    checkVideoProcessing_readable [of rs id' args]
  by blast

text \<open>Answers "processing", "succeeded", "processing": two queries, then the loop has returned.\<close>

theorem video_loop_ends_on_succeeded_witness:
  "readable (status_response ''processing'' (Some (JNumber (Num 7000))) None)
   \<and> readable (status_response ''succeeded'' None None)
   \<and> readable (status_response ''processing'' None None)
   \<and> \<not> reports_succeeded (status_response ''processing'' (Some (JNumber (Num 7000))) None)
   \<and> reports_succeeded (status_response ''succeeded'' None None)
   \<and> snd (checkVideoProcessing ''dQw4w9WgXcQ'' [Some (JNumber (Num 3000))]
            [status_response ''processing'' (Some (JNumber (Num 7000))) None,
             status_response ''succeeded'' None None,
             status_response ''processing'' None None]) = Returned ()
   \<and> count_list (fst (checkVideoProcessing ''dQw4w9WgXcQ'' [Some (JNumber (Num 3000))]
            [status_response ''processing'' (Some (JNumber (Num 7000))) None,
             status_response ''succeeded'' None None,
             status_response ''processing'' None None])) (VideosList ''dQw4w9WgXcQ'') = 2"
  using video_loop_ends_on_succeeded [of "''dQw4w9WgXcQ''" "[Some (JNumber (Num 3000))]"
          "[status_response ''processing'' (Some (JNumber (Num 7000))) None,
            status_response ''succeeded'' None None,
            status_response ''processing'' None None]"]
  by (simp add: readable_status_response reports_succeeded_status_response
        del: checkVideoProcessing.simps)

section \<open>The wait interval of the video loop\<close>

text \<open>
  Over status responses, the first wait is the first argument of the call and every
  later wait is the video id; no estimate of the service ever reaches \<open>setTimeout\<close>.
\<close>

lemma checkVideoProcessing_waits:
  assumes "\<forall>r\<in>set rs. readable r"
  shows "fst (checkVideoProcessing id' args rs) =
           [SetTimeout (case args of [] \<Rightarrow> None | a # _ \<Rightarrow> a), VideosList id'] @
           concat (replicate (length (takeWhile (\<lambda>r. \<not> reports_succeeded r) rs))
                     [SetTimeout (Some (JString id')), VideosList id'])"
  using assms
proof (induction rs arbitrary: args)
  case Nil
  then show ?case by (simp add: Let_def)
next
  case (Cons r rs)
  then have r: "readable r" and rs: "\<forall>r\<in>set rs. readable r" by simp_all
  show ?case
  proof (cases "reports_succeeded r")
    case True
    then show ?thesis
      using r by (simp add: checkVideoProcessing_step Let_def del: checkVideoProcessing.simps)
  next
    case False
    then show ?thesis
      using r Cons.IH [OF rs, of "[Some (JString id'),
              js_or (estimate r) (case args of [] \<Rightarrow> None | a # _ \<Rightarrow> a)]"]
      by (simp add: checkVideoProcessing_step after_def Let_def del: checkVideoProcessing.simps)
  qed
qed

text \<open>
  Claim C4. The wait before each query should be the estimate of the previous answer, or
  else the previous interval, starting from 3000 ms. With answers "processing, 7000 ms
  left", "processing, no estimate", "succeeded", the three waits are 3000, then the video
  id, then the video id again: the recursive call passes \<open>(id, newTimeLeftMs)\<close> to a
  function of the one parameter \<open>timeLeftMs\<close>.
\<close>

theorem wait_interval_is_video_id:
  "fst (checkVideoProcessing ''dQw4w9WgXcQ'' [Some (JNumber (Num 3000))]
         [status_response ''processing'' (Some (JNumber (Num 7000))) None,
          status_response ''processing'' None None,
          status_response ''succeeded'' None None])
   = [SetTimeout (Some (JNumber (Num 3000))), VideosList ''dQw4w9WgXcQ'',
      SetTimeout (Some (JString ''dQw4w9WgXcQ'')), VideosList ''dQw4w9WgXcQ'',
      SetTimeout (Some (JString ''dQw4w9WgXcQ'')), VideosList ''dQw4w9WgXcQ'']"
  by (simp add: status_response_def items0_def after_def js_or_def)

section \<open>The thumbnail loop\<close>

lemma checkThumbnailProcessing_retry:
  assumes "get_fails p"
  shows "checkThumbnailProcessing id' (p # rest) =
           after (thumbnail_iteration id' p) (checkThumbnailProcessing id' rest)"
  using assms
  by (cases p)
     (auto simp: get_fails_def readable_def first_video_def thumbnailURL_def
        thumbnail_iteration_def Let_def split: sum.splits option.splits)

lemma checkThumbnailProcessing_end:
  assumes "get_succeeds p \<or> url_absent p"
  shows "checkThumbnailProcessing id' (p # rest) = (thumbnail_iteration id' p, Returned ())"
  using assms
  by (cases p)
     (auto simp: get_succeeds_def url_absent_def readable_def first_video_def thumbnailURL_def
        thumbnail_iteration_def Let_def split: sum.splits option.splits)

lemma checkThumbnailProcessing_retries:
  assumes "\<forall>p\<in>set ps. get_fails p"
  shows "checkThumbnailProcessing id' (ps @ rest) =
           after (concat (map (thumbnail_iteration id') ps)) (checkThumbnailProcessing id' rest)"
  using assms
proof (induction ps)
  case Nil
  then show ?case by (simp add: after_def)
next
  case (Cons p ps)
  then have "get_fails p" and "\<forall>p\<in>set ps. get_fails p" by simp_all
  then show ?case
    using Cons.IH
    by (simp add: checkThumbnailProcessing_retry after_def del: checkThumbnailProcessing.simps)
qed

lemma get_fails_samples: "get_fails poll_404 \<and> get_fails poll_reset"
  by (simp add: get_fails_def poll_404_def poll_reset_def thumbnail_response_def
        readable_status_response thumbnailURL_status_response ok_def)

lemma get_succeeds_sample: "get_succeeds poll_200"
  by (simp add: get_succeeds_def poll_200_def thumbnail_response_def
        readable_status_response thumbnailURL_status_response ok_def)

lemma url_absent_sample: "url_absent poll_no_url"
  by (simp add: url_absent_def poll_no_url_def
        readable_status_response thumbnailURL_status_response)

lemma thumbnail_iteration_samples:
  "thumbnail_iteration id' poll_404 =
     [SetTimeout (Some (JNumber (Num 5000))), VideosList id',
      Fetch ''https://i.ytimg.com/vi/dQw4w9WgXcQ/hqdefault.jpg'']
   \<and> thumbnail_iteration id' poll_reset =
     [SetTimeout (Some (JNumber (Num 5000))), VideosList id',
      Fetch ''https://i.ytimg.com/vi/dQw4w9WgXcQ/hqdefault.jpg'']"
  by (simp add: thumbnail_iteration_def poll_404_def poll_reset_def thumbnail_response_def
        thumbnailURL_status_response)

text \<open>
  Claim C7. Every thumbnail iteration waits 5000 ms and then queries the status. While
  the thumbnail URL is there and the GET fails (a status outside 200 to 299, or a
  transport error) the loop goes round again: after any number of such iterations it is
  still polling. The first iteration whose GET answers with a status from 200 to 299 ends
  the loop, and so does, without a GET and without a retry, the first iteration whose
  answer has no thumbnail URL.
\<close>

theorem thumbnail_loop_retries_until_success:
  assumes "\<forall>p\<in>set ps. get_fails p"
  shows "checkThumbnailProcessing id' ps =
           (concat (map (thumbnail_iteration id') ps) @
              [SetTimeout (Some (JNumber (Num 5000))), VideosList id'], Pending)
         \<and> (get_succeeds q \<and> thumbnailURL (fst q) = Some u \<longrightarrow>
              checkThumbnailProcessing id' (ps @ q # rest) =
                (concat (map (thumbnail_iteration id') ps) @
                   [SetTimeout (Some (JNumber (Num 5000))), VideosList id', Fetch u],
                 Returned ()))
         \<and> (url_absent q \<longrightarrow>
              checkThumbnailProcessing id' (ps @ q # rest) =
                (concat (map (thumbnail_iteration id') ps) @
                   [SetTimeout (Some (JNumber (Num 5000))), VideosList id'],
                 Returned ()))"
proof -
  have 1: "checkThumbnailProcessing id' ps =
           (concat (map (thumbnail_iteration id') ps) @
              [SetTimeout (Some (JNumber (Num 5000))), VideosList id'], Pending)"
    using checkThumbnailProcessing_retries [OF assms, of id' "[]"] by (simp add: after_def)
  have step: "get_succeeds q \<or> url_absent q \<Longrightarrow>
              checkThumbnailProcessing id' (ps @ q # rest) =
                (concat (map (thumbnail_iteration id') ps) @ thumbnail_iteration id' q,
                 Returned ())"
    using checkThumbnailProcessing_retries [OF assms, of id' "q # rest"]
    by (simp add: checkThumbnailProcessing_end after_def del: checkThumbnailProcessing.simps)
  have 2: "get_succeeds q \<and> thumbnailURL (fst q) = Some u \<longrightarrow>
              checkThumbnailProcessing id' (ps @ q # rest) =
                (concat (map (thumbnail_iteration id') ps) @
                   [SetTimeout (Some (JNumber (Num 5000))), VideosList id', Fetch u],
                 Returned ())"
  proof
    assume a: "get_succeeds q \<and> thumbnailURL (fst q) = Some u"
    then have "thumbnail_iteration id' q =
                 [SetTimeout (Some (JNumber (Num 5000))), VideosList id', Fetch u]"
      by (auto simp: get_succeeds_def thumbnail_iteration_def)
    with a step show "checkThumbnailProcessing id' (ps @ q # rest) =
                (concat (map (thumbnail_iteration id') ps) @
                   [SetTimeout (Some (JNumber (Num 5000))), VideosList id', Fetch u],
                 Returned ())"
      by simp
  qed
  have 3: "url_absent q \<longrightarrow>
              checkThumbnailProcessing id' (ps @ q # rest) =
                (concat (map (thumbnail_iteration id') ps) @
                   [SetTimeout (Some (JNumber (Num 5000))), VideosList id'],
                 Returned ())"
  proof
    assume a: "url_absent q"
    then have "thumbnail_iteration id' q =
                 [SetTimeout (Some (JNumber (Num 5000))), VideosList id']"
      by (auto simp: url_absent_def thumbnail_iteration_def split: option.splits)
    with a step show "checkThumbnailProcessing id' (ps @ q # rest) =
                (concat (map (thumbnail_iteration id') ps) @
                   [SetTimeout (Some (JNumber (Num 5000))), VideosList id'],
                 Returned ())"
      by simp
  qed
  from 1 2 3 show ?thesis by blast
qed

text \<open>
  A 404 and a transport error are retried; a 200 after them ends the loop, and so does an
  answer without thumbnail URL.
\<close>

theorem thumbnail_loop_retries_until_success_witness:
  "get_fails poll_404 \<and> get_fails poll_reset \<and> get_succeeds poll_200 \<and> url_absent poll_no_url
   \<and> thumbnailURL (fst poll_200) = Some ''https://i.ytimg.com/vi/dQw4w9WgXcQ/hqdefault.jpg''
   \<and> checkThumbnailProcessing ''dQw4w9WgXcQ'' [poll_404, poll_reset] =
       ([SetTimeout (Some (JNumber (Num 5000))), VideosList ''dQw4w9WgXcQ'',
         Fetch ''https://i.ytimg.com/vi/dQw4w9WgXcQ/hqdefault.jpg'',
         SetTimeout (Some (JNumber (Num 5000))), VideosList ''dQw4w9WgXcQ'',
         Fetch ''https://i.ytimg.com/vi/dQw4w9WgXcQ/hqdefault.jpg'',
         SetTimeout (Some (JNumber (Num 5000))), VideosList ''dQw4w9WgXcQ''], Pending)
   \<and> checkThumbnailProcessing ''dQw4w9WgXcQ'' [poll_404, poll_reset, poll_200, poll_404] =
       ([SetTimeout (Some (JNumber (Num 5000))), VideosList ''dQw4w9WgXcQ'',
         Fetch ''https://i.ytimg.com/vi/dQw4w9WgXcQ/hqdefault.jpg'',
         SetTimeout (Some (JNumber (Num 5000))), VideosList ''dQw4w9WgXcQ'',
         Fetch ''https://i.ytimg.com/vi/dQw4w9WgXcQ/hqdefault.jpg'',
         SetTimeout (Some (JNumber (Num 5000))), VideosList ''dQw4w9WgXcQ'',
         Fetch ''https://i.ytimg.com/vi/dQw4w9WgXcQ/hqdefault.jpg''], Returned ())
   \<and> checkThumbnailProcessing ''dQw4w9WgXcQ'' [poll_404, poll_reset, poll_no_url, poll_200] =
       ([SetTimeout (Some (JNumber (Num 5000))), VideosList ''dQw4w9WgXcQ'',
         Fetch ''https://i.ytimg.com/vi/dQw4w9WgXcQ/hqdefault.jpg'',
         SetTimeout (Some (JNumber (Num 5000))), VideosList ''dQw4w9WgXcQ'',
         Fetch ''https://i.ytimg.com/vi/dQw4w9WgXcQ/hqdefault.jpg'',
         SetTimeout (Some (JNumber (Num 5000))), VideosList ''dQw4w9WgXcQ''], Returned ())"
  using thumbnail_loop_retries_until_success [of "[poll_404, poll_reset]" "''dQw4w9WgXcQ''"
          poll_200 "''https://i.ytimg.com/vi/dQw4w9WgXcQ/hqdefault.jpg''" "[poll_404]"]
    thumbnail_loop_retries_until_success [of "[poll_404, poll_reset]" "''dQw4w9WgXcQ''"
          poll_no_url "''https://i.ytimg.com/vi/dQw4w9WgXcQ/hqdefault.jpg''" "[poll_200]"]
  by (simp add: get_fails_samples get_succeeds_sample url_absent_sample
        thumbnail_iteration_samples del: checkThumbnailProcessing.simps)
     (simp add: poll_200_def thumbnail_response_def thumbnailURL_status_response)

end
